theory Spec2Isabelle
  imports Complex_Main "HOL-Library.AList"
begin

section \<open>The rule execution core of ElastAlert (elastalert/elastalert.py)\<close>

text \<open>
  A shallow embedding of the methods of \<^verbatim>\<open>ElastAlerter\<close> that the properties below
  are about. The conventions:

  \<^item> An instant (\<^verbatim>\<open>datetime\<close>) is a number of whole seconds since the epoch and a
    duration (\<^verbatim>\<open>timedelta\<close>) a number of whole seconds, both \<open>int\<close>. At this
    granularity \<^verbatim>\<open>util.seconds\<close>, \<^verbatim>\<open>util.total_seconds\<close>, \<^verbatim>\<open>dt_to_unix\<close> and
    \<^verbatim>\<open>unix_to_dt\<close> are the identity.
  \<^item> The rule is a Python dict. A key the code tests with \<^verbatim>\<open>in\<close> or reads with a default
    is an \<open>option\<close> field; a key the code only tests for truth
    (\<^verbatim>\<open>rule.get('use_count_query')\<close>) is a \<open>bool\<close> field, false when the key is absent or
    falsy.
  \<^item> A method that mutates the rule returns the updated rule; an exception that leaves
    the method is the \<open>Inl\<close> of a sum.
  \<^item> An answer of Elasticsearch is an argument of the function that asks for it.
\<close>

subsection \<open>Data\<close>

type_synonym timestamp = int
type_synonym timedelta = int

datatype py_exception =
    KeyError string
  | IndexError
  | TypeError
  | ZeroDivisionError
  | RuntimeError
  | EAException string
  | Other_exception string

text \<open>A JSON value as Python holds it, and a dict with string keys as an association list
  in insertion order.\<close>

datatype py_value = PNone | PStr string | PInt int | PTime timestamp | PList "py_value list"

type_synonym doc = "(string \<times> py_value) list"

text \<open>Python's truth test: \<^verbatim>\<open>None\<close>, the empty string, zero and the empty list are falsy;
  a \<^verbatim>\<open>datetime\<close> is always truthy.\<close>

fun truthy :: "py_value \<Rightarrow> bool" where
  "truthy PNone = False"
| "truthy (PStr s) = (s \<noteq> [])"
| "truthy (PInt i) = (i \<noteq> 0)"
| "truthy (PTime t) = True"
| "truthy (PList xs) = (xs \<noteq> [])"

text \<open>A hit of a search response: its top-level keys other than \<^verbatim>\<open>_source\<close> and
  \<^verbatim>\<open>fields\<close> (\<^verbatim>\<open>_id\<close>, \<^verbatim>\<open>_index\<close>, \<^verbatim>\<open>_type\<close>, ...), and the two dicts, each of which may be
  absent.\<close>

record hit =
  hit_meta :: doc
  hit_source :: "doc option"
  hit_fields :: "doc option"

text \<open>An Elasticsearch filter: the \<^verbatim>\<open>query_string\<close> filter that \<^verbatim>\<open>enhance_filter\<close> builds,
  \<^verbatim>\<open>{'query_string': {'query': q}}\<close>, or any other filter of the rule file.\<close>

datatype es_filter = Query_string string | Rule_filter string

text \<open>The collaborators of the rule. An alerter is its \<^verbatim>\<open>get_info()['type']\<close> and what
  \<^verbatim>\<open>alert(matches)\<close> does: deliver, or raise. An enhancement's \<^verbatim>\<open>process(match)\<close> returns
  the match as it leaves it, raises \<^verbatim>\<open>DropMatchException\<close>, or raises something else.
  (What an alerter reads from the shared \<^verbatim>\<open>pipeline\<close> dict is part of its behaviour.)\<close>

datatype alert_outcome = Delivered | Alert_raises py_exception

record alerter =
  alerter_type :: string
  alert_fn :: "doc list \<Rightarrow> alert_outcome"

datatype enhancement_outcome = Enhanced doc | Drop_match | Enhancement_raises py_exception

type_synonym enhancement = "doc \<Rightarrow> enhancement_outcome"

text \<open>\<^verbatim>\<open>rule['aggregation']\<close>: unset, a duration, or a dict with a cron \<^verbatim>\<open>schedule\<close>.\<close>

datatype aggregation_conf = No_aggregation | Aggregate_for timedelta | Aggregate_schedule string

text \<open>The rule. \<^verbatim>\<open>init_rule\<close> gives every rule the maps \<^verbatim>\<open>processed_hits\<close>,
  \<^verbatim>\<open>current_aggregate_id\<close> and \<^verbatim>\<open>aggregate_alert_time\<close> and the list \<^verbatim>\<open>agg_matches\<close>. An
  aggregation key value may be Python's \<^verbatim>\<open>None\<close>, so the aggregation maps are keyed by
  \<open>string option\<close>. A deadline in \<^verbatim>\<open>aggregate_alert_time\<close> is \<open>None\<close> for the empty string
  that \<^verbatim>\<open>add_aggregated_alert\<close> stores when it cannot compute one.\<close>

record rule =
  rule_name :: string
  rule_filter :: "es_filter list"
  filter_by_list :: "bool option"
  blacklist :: "string list option"
  whitelist :: "string list option"
  compare_key :: "string option"
  starttime :: "timestamp option"
  minimum_starttime :: "timestamp option"
  previous_endtime :: "timestamp option"
  original_starttime :: "timestamp option"
  bucket_offset_delta :: "int option"
  buffer_time :: "timedelta option"
  timeframe :: "timedelta option"
  run_every :: timedelta
  scan_entire_timeframe :: bool
  use_count_query :: bool
  use_terms_query :: bool
  aggregation_query_element :: bool
  allow_buffer_time_overlap :: bool
  use_run_every_query_size :: bool
  bucket_interval :: bool
  bucket_interval_timedelta :: "timedelta option"
  sync_bucket_interval :: bool
  realert :: timedelta
  exponential_realert :: "timedelta option"
  timestamp_field :: string
  source_enabled :: "bool option"
  query_key :: "string option"
  compound_query_key :: "string list option"
  aggregation_key :: "string option"
  compound_aggregation_key :: "string list option"
  max_query_size :: "int option"
  scroll_id :: "string option"
  scrolling_cycle :: "int option"
  processed_hits :: "py_value \<rightharpoonup> py_value"
  agg_matches :: "doc list"
  current_aggregate_id :: "string option \<rightharpoonup> string"
  aggregate_alert_time :: "string option \<rightharpoonup> timestamp option"
  aggregation :: aggregation_conf
  aggregate_by_match_time :: bool
  aggregation_alert_time_compared_with_timestamp_field :: bool
  alert :: "alerter list"
  match_enhancements :: "enhancement list"
  run_enhancements_first :: bool

text \<open>The helpers of \<^verbatim>\<open>elastalert/util.py\<close>, which is not among the sources: they are
  parameters of every function that calls them. \<^verbatim>\<open>lookup_es_key\<close> answers Python's
  \<^verbatim>\<open>None\<close> (\<open>PNone\<close>) when it finds nothing; \<^verbatim>\<open>set_es_key\<close> returns the dict as it leaves
  it; \<open>ts_to_dt\<close> is the rule's own \<^verbatim>\<open>rule['ts_to_dt']\<close> and \<open>parse_ts\<close> is
  \<^verbatim>\<open>util.ts_to_dt\<close>, both of which may raise; \<open>str_of\<close> is Python's \<^verbatim>\<open>str\<close>;
  \<open>cron_next\<close> is the next fire time of a cron schedule after an instant, as
  \<^verbatim>\<open>croniter\<close> computes it, or the exception it raises.\<close>

record util =
  lookup_es_key :: "doc \<Rightarrow> string \<Rightarrow> py_value"
  set_es_key :: "doc \<Rightarrow> string \<Rightarrow> py_value \<Rightarrow> doc"
  ts_to_dt :: "py_value \<Rightarrow> py_exception + py_value"
  parse_ts :: "py_value \<Rightarrow> py_exception + timestamp"
  str_of :: "py_value \<Rightarrow> string"
  cron_next :: "string \<Rightarrow> timestamp \<Rightarrow> py_exception + timestamp"
  should_scrolling_continue :: "rule \<Rightarrow> bool"

text \<open>The body that \<^verbatim>\<open>get_alert_body\<close> builds. \<open>alert_exception\<close> is \<open>None\<close> when the key
  is absent, \<open>Some None\<close> when it holds Python's \<^verbatim>\<open>None\<close>. \<open>alert_time\<close> is \<open>None\<close> for the
  empty string. The optional copies into the body (\<^verbatim>\<open>include_match_in_root\<close>,
  \<^verbatim>\<open>add_metadata_alert\<close>) are left out.\<close>

record alert_body =
  match_body :: doc
  body_rule_name :: string
  alert_info :: string
  alert_sent :: bool
  alert_time :: "timestamp option"
  match_time :: "py_value option"
  alert_exception :: "string option option"
  aggregate_id :: "string option"
  body_aggregation_key :: "string option"

text \<open>What the engine writes back: an \<^verbatim>\<open>elastalert_error\<close> document (by its message) or
  an \<^verbatim>\<open>elastalert\<close> document.\<close>

datatype wb_doc = Error_doc string | Alert_doc alert_body

text \<open>The fields of the \<^verbatim>\<open>ElastAlerter\<close> object that the modelled methods read.\<close>

record conf =
  conf_buffer_time :: timedelta
  conf_run_every :: timedelta
  debug :: bool

text \<open>\<^verbatim>\<open>self.silence_cache\<close>: silence key to \<^verbatim>\<open>(until, exponent)\<close>. The exponent is the
  Python \<^verbatim>\<open>int\<close> that \<^verbatim>\<open>next_alert_time\<close> returns or that a \<^verbatim>\<open>silence\<close> document carries, and
  may be negative. With a negative exponent \<^verbatim>\<open>2 ** exponent\<close> is a fraction and the deadline
  no whole number of seconds: the instants and durations of the silence methods are
  rational numbers of seconds.\<close>

type_synonym instant = rat

type_synonym silence_cache = "string \<rightharpoonup> (instant \<times> int)"

subsection \<open>Strings\<close>

text \<open>\<^verbatim>\<open>sep.join(xs)\<close>, \<^verbatim>\<open>s.startswith(c)\<close> and \<^verbatim>\<open>s.endswith(c)\<close> for a one-character
  \<^verbatim>\<open>c\<close>.\<close>

fun join :: "string \<Rightarrow> string list \<Rightarrow> string" where
  "join sep [] = []"
| "join sep [x] = x"
| "join sep (x # y # ys) = x @ sep @ join sep (y # ys)"

definition startswith :: "string \<Rightarrow> char \<Rightarrow> bool" where
  "startswith s c = (case s of [] \<Rightarrow> False | x # _ \<Rightarrow> x = c)"

definition endswith :: "string \<Rightarrow> char \<Rightarrow> bool" where
  "endswith s c = (case rev s of [] \<Rightarrow> False | x # _ \<Rightarrow> x = c)"

subsection \<open>\<^verbatim>\<open>enhance_filter\<close>\<close>

text \<open>The loop over \<^verbatim>\<open>rule[listname]\<close>, which appends to \<^verbatim>\<open>additional_terms\<close>.
  \<^verbatim>\<open>rule['compare_key']\<close> is read once per term, so a rule without the key raises
  \<^verbatim>\<open>KeyError\<close> at the first term and an empty list raises nothing.\<close>

fun additional_terms_loop ::
  "string option \<Rightarrow> string list \<Rightarrow> string list \<Rightarrow> py_exception + string list" where
  "additional_terms_loop ck [] additional_terms = Inr additional_terms"
| "additional_terms_loop ck (term # terms) additional_terms =
     (case ck of
        None \<Rightarrow> Inl (KeyError ''compare_key'')
      | Some c \<Rightarrow>
          if \<not> startswith term (CHR ''/'') \<or> \<not> endswith term (CHR ''/'')
          then additional_terms_loop ck terms (additional_terms @ [c @ [CHR '':'', CHR 0x22] @ term @ [CHR 0x22]])
          else additional_terms_loop ck terms (additional_terms @ [c @ '':'' @ term]))"

definition enhance_filter :: "rule \<Rightarrow> py_exception + rule" where
  "enhance_filter rule =
     (if \<not> (case filter_by_list rule of None \<Rightarrow> True | Some b \<Rightarrow> b) then Inr rule
      else
        (case (case blacklist rule of
                 Some bl \<Rightarrow> Some (False, bl)
               | None \<Rightarrow> (case whitelist rule of Some wl \<Rightarrow> Some (True, wl) | None \<Rightarrow> None)) of
           None \<Rightarrow> Inr rule
         | Some (is_whitelist, terms) \<Rightarrow>
             (case additional_terms_loop (compare_key rule) terms [] of
                Inl e \<Rightarrow> Inl e
              | Inr additional_terms \<Rightarrow>
                  let query = (if is_whitelist
                               then ''NOT '' @ join '' AND NOT '' additional_terms
                               else join '' OR '' additional_terms)
                  in Inr (rule\<lparr>rule_filter := rule_filter rule @ [Query_string query]\<rparr>))))"

subsection \<open>\<^verbatim>\<open>set_starttime\<close> and its two adjustments\<close>

definition adjust_start_time_for_overlapping_agg_query :: "rule \<Rightarrow> py_exception + rule" where
  "adjust_start_time_for_overlapping_agg_query rule =
     (if aggregation_query_element rule then
        (if allow_buffer_time_overlap rule \<and> \<not> use_run_every_query_size rule then
           (case buffer_time rule of
              None \<Rightarrow> Inl (KeyError ''buffer_time'')
            | Some bt \<Rightarrow>
                if bt > run_every rule then
                  (case starttime rule of
                     None \<Rightarrow> Inl (KeyError ''starttime'')
                   | Some s \<Rightarrow>
                       Inr (rule\<lparr>starttime := Some (s - (bt - run_every rule)),
                                 original_starttime := Some (s - (bt - run_every rule))\<rparr>))
                else Inr rule)
         else Inr rule)
      else Inr rule)"

text \<open>The method also assigns to its own parameter \<^verbatim>\<open>endtime\<close>, which the caller never
  sees; the rule is all it changes. \<^verbatim>\<open>total_seconds(None)\<close> is 0 and Python's \<^verbatim>\<open>%\<close> by 0
  raises.\<close>

definition adjust_start_time_for_interval_sync :: "rule \<Rightarrow> timestamp \<Rightarrow> py_exception + rule" where
  "adjust_start_time_for_interval_sync rule endtime =
     (if aggregation_query_element rule \<and> bucket_interval rule then
        (case starttime rule of
           None \<Rightarrow> Inl (KeyError ''starttime'')
         | Some unix_starttime \<Rightarrow>
             let es_interval_delta_in_sec =
                   (case bucket_interval_timedelta rule of None \<Rightarrow> 0 | Some d \<Rightarrow> d)
             in if es_interval_delta_in_sec = 0 then Inl ZeroDivisionError
                else
                  let offset = unix_starttime mod es_interval_delta_in_sec
                  in if sync_bucket_interval rule
                     then Inr (rule\<lparr>starttime := Some (unix_starttime - offset)\<rparr>)
                     else Inr (rule\<lparr>bucket_offset_delta := Some offset\<rparr>))
      else Inr rule)"

text \<open>\<^verbatim>\<open>set_starttime(rule, endtime)\<close>. \<open>last_run_end\<close> is what \<^verbatim>\<open>get_starttime\<close> answers
  from the writeback index (the end of the last recorded run, if one is recent enough);
  the method asks only when the rule has no \<^verbatim>\<open>starttime\<close> yet and
  \<^verbatim>\<open>scan_entire_timeframe\<close> is unset.\<close>

definition set_starttime ::
  "conf \<Rightarrow> timestamp option \<Rightarrow> rule \<Rightarrow> timestamp \<Rightarrow> py_exception + rule" where
  "set_starttime self last_run_end rule endtime =
     (if starttime rule = None \<and> \<not> scan_entire_timeframe rule \<and> last_run_end \<noteq> None then
        (case adjust_start_time_for_overlapping_agg_query (rule\<lparr>starttime := last_run_end\<rparr>) of
           Inl e \<Rightarrow> Inl e
         | Inr rule1 \<Rightarrow>
             (case adjust_start_time_for_interval_sync rule1 endtime of
                Inl e \<Rightarrow> Inl e
              | Inr rule2 \<Rightarrow> Inr (rule2\<lparr>minimum_starttime := starttime rule2\<rparr>)))
      else if \<not> use_count_query rule \<and> \<not> use_terms_query rule then
        (case (if \<not> scan_entire_timeframe rule
               then Inr (endtime - (case buffer_time rule of
                                       None \<Rightarrow> conf_buffer_time self | Some bt \<Rightarrow> bt))
               else (case timeframe rule of
                       None \<Rightarrow> Inl (KeyError ''timeframe'')
                     | Some tf \<Rightarrow> Inr (endtime - tf))) of
           Inl e \<Rightarrow> Inl e
         | Inr buffer_delta \<Rightarrow>
             (case (if (case minimum_starttime rule of None \<Rightarrow> False | Some m \<Rightarrow> m > buffer_delta)
                    then Inr (rule\<lparr>starttime := minimum_starttime rule\<rparr>)
                    else if (case previous_endtime rule of
                               None \<Rightarrow> False | Some p \<Rightarrow> p < buffer_delta)
                    then adjust_start_time_for_overlapping_agg_query
                           (rule\<lparr>starttime := previous_endtime rule\<rparr>)
                    else Inr (rule\<lparr>starttime := Some buffer_delta\<rparr>)) of
                Inl e \<Rightarrow> Inl e
              | Inr rule1 \<Rightarrow> adjust_start_time_for_interval_sync rule1 endtime))
      else if \<not> scan_entire_timeframe rule then
        Inr (rule\<lparr>starttime := Some (case previous_endtime rule of
                                        None \<Rightarrow> endtime - conf_run_every self
                                      | Some p \<Rightarrow> p)\<rparr>)
      else
        (case timeframe rule of
           None \<Rightarrow> Inl (KeyError ''timeframe'')
         | Some tf \<Rightarrow> Inr (rule\<lparr>starttime := Some (endtime - tf)\<rparr>)))"

subsection \<open>\<^verbatim>\<open>next_alert_time\<close>\<close>







subsection \<open>The loop of \<^verbatim>\<open>next_alert_time\<close>, in the words of the specification\<close>



subsection \<open>\<^verbatim>\<open>writeback\<close> and \<^verbatim>\<open>handle_error\<close>\<close>

text \<open>\<^verbatim>\<open>writeback(doc_type, body)\<close>. \<open>es_index\<close> is \<^verbatim>\<open>writeback_es.index\<close>: the \<^verbatim>\<open>_id\<close> of
  the stored document, or \<open>None\<close> when the call raises \<^verbatim>\<open>ElasticsearchException\<close> (which
  the method logs, returning \<^verbatim>\<open>None\<close>). \<open>written\<close> lists the documents stored so far.
  In debug mode nothing is written.\<close>

definition writeback ::
  "conf \<Rightarrow> (wb_doc \<Rightarrow> string option) \<Rightarrow> wb_doc list \<Rightarrow> wb_doc \<Rightarrow> string option \<times> wb_doc list" where
  "writeback self es_index written body =
     (if debug self then (None, written)
      else (case es_index body of
              None \<Rightarrow> (None, written)
            | Some i \<Rightarrow> (Some i, written @ [body])))"

text \<open>\<^verbatim>\<open>handle_error(message, data)\<close>: the message goes to the log and, through
  \<^verbatim>\<open>writeback\<close>, into an \<^verbatim>\<open>elastalert_error\<close> document. The notifications of
  \<^verbatim>\<open>notify_all_errors\<close> are outside this model.\<close>

definition handle_error ::
  "conf \<Rightarrow> (wb_doc \<Rightarrow> string option) \<Rightarrow> wb_doc list \<Rightarrow> string \<Rightarrow> wb_doc list" where
  "handle_error self es_index written message =
     snd (writeback self es_index written (Error_doc message))"

subsection \<open>\<^verbatim>\<open>is_silenced\<close>\<close>

text \<open>The search that \<^verbatim>\<open>is_silenced\<close> sends to the writeback index: the \<^verbatim>\<open>term\<close> query on
  \<^verbatim>\<open>rule_name\<close>, the \<^verbatim>\<open>sort\<close> clause, \<^verbatim>\<open>size\<close> and \<^verbatim>\<open>_source_includes\<close>.\<close>

record silence_search =
  term_rule_name :: string
  sort_field :: string
  sort_order :: string
  search_size :: nat
  source_includes :: "string list"

text \<open>\<^verbatim>\<open>is_silenced(rule_name)\<close> at the instant \<open>now\<close>. \<open>wb_search\<close> is the search of the
  writeback index for \<^verbatim>\<open>silence\<close> documents: \<open>Inl\<close> the text of an
  \<^verbatim>\<open>ElasticsearchException\<close>, or \<open>Inr\<close> the hits, each \<^verbatim>\<open>(until, exponent)\<close> with the exponent
  optional. The method returns its verdict; the model also returns the cache and the
  written documents as the call leaves them, and the searches it has sent.\<close>

definition is_silenced ::
  "conf \<Rightarrow> (wb_doc \<Rightarrow> string option) \<Rightarrow>
   (silence_search \<Rightarrow> string + (instant \<times> int option) list) \<Rightarrow> instant \<Rightarrow>
   silence_cache \<Rightarrow> wb_doc list \<Rightarrow> string \<Rightarrow>
   bool \<times> silence_cache \<times> wb_doc list \<times> silence_search list" where
  "is_silenced self es_index wb_search now cache written name =
     (if (case cache name of None \<Rightarrow> False | Some (until, exponent) \<Rightarrow> now < until)
      then (True, cache, written, [])
      else
        let cache1 = cache(name := None)
        in if debug self then (False, cache1, written, [])
           else
             let query = \<lparr>term_rule_name = name, sort_field = ''until'',
                          sort_order = ''desc'', search_size = 1,
                          source_includes = [''until'', ''exponent'']\<rparr>
             in (case wb_search query of
                   Inl e \<Rightarrow>
                     (False, cache1,
                      handle_error self es_index written
                        (''Error while querying for alert silence status: '' @ e),
                      [query])
                 | Inr [] \<Rightarrow> (False, cache1, written, [query])
                 | Inr ((until_ts, exponent) # _) \<Rightarrow>
                     let exponent0 = (case exponent of None \<Rightarrow> 0 | Some x \<Rightarrow> x);
                         cache2 = (case cache1 name of
                                     None \<Rightarrow> cache1(name \<mapsto> (until_ts, exponent0))
                                   | Some (_, old) \<Rightarrow> cache1(name \<mapsto> (until_ts, old)))
                     in (now < until_ts, cache2, written, [query])))"

subsection \<open>The state of a tick\<close>

text \<open>What the engine sends to the rule's cluster, and what it hands to the rule type.\<close>

datatype es_request =
    Search_request timestamp timestamp
  | Scroll_request string
  | Count_request timestamp timestamp
  | Terms_request timestamp timestamp string
  | Aggregation_request timestamp timestamp

datatype feed =
    Add_data "doc list"
  | Add_count_data timestamp int
  | Add_terms_data timestamp "doc list"
  | Add_aggregation_data timestamp doc
  | Garbage_collect timestamp

text \<open>The counters of \<^verbatim>\<open>thread_data\<close>, and what the engine has done so far: the documents
  stored in the writeback index, the requests sent to the rule's cluster, the calls of
  the rule type, and the alerters called (by their types), each in order.\<close>

record engine =
  num_hits :: int
  num_dupes :: int
  total_hits :: int
  cumulative_hits :: int
  alerts_sent :: int
  docs_written :: "wb_doc list"
  es_requests :: "es_request list"
  fed :: "feed list"
  invoked :: "string list"

subsection \<open>\<^verbatim>\<open>get_alert_body\<close> and \<^verbatim>\<open>send_alert\<close>\<close>

text \<open>\<^verbatim>\<open>rule['alert'][0].get_info()\<close> raises \<^verbatim>\<open>IndexError\<close> on a rule without alerters;
  in debug mode the list is not read.\<close>

definition get_alert_body ::
  "util \<Rightarrow> conf \<Rightarrow> doc \<Rightarrow> rule \<Rightarrow> bool \<Rightarrow> timestamp option \<Rightarrow> string option \<Rightarrow>
   py_exception + alert_body" where
  "get_alert_body u self match rule sent atime exc =
     (case (if \<not> debug self
            then (case alert rule of [] \<Rightarrow> Inl IndexError | a # _ \<Rightarrow> Inr (alerter_type a))
            else Inr []) of
        Inl e \<Rightarrow> Inl e
      | Inr info \<Rightarrow>
          Inr \<lparr>match_body = match, body_rule_name = rule_name rule, alert_info = info,
               alert_sent = sent, alert_time = atime,
               match_time = (case lookup_es_key u match (timestamp_field rule) of
                               PNone \<Rightarrow> None | v \<Rightarrow> Some v),
               alert_exception = (if \<not> sent then Some exc else None),
               aggregate_id = None, body_aggregation_key = None\<rparr>)"






subsection \<open>\<^verbatim>\<open>add_aggregated_alert\<close>\<close>

text \<open>\<^verbatim>\<open>get_aggregation_key_value\<close>, that is \<^verbatim>\<open>get_named_key_value\<close> for
  \<^verbatim>\<open>aggregation_key\<close>. (The \<^verbatim>\<open>'_missing'\<close> token of the source stands in an
  \<^verbatim>\<open>except KeyError\<close> around \<^verbatim>\<open>lookup_es_key\<close>, which answers \<^verbatim>\<open>None\<close> instead of raising.)\<close>

definition get_aggregation_key_value :: "util \<Rightarrow> rule \<Rightarrow> doc \<Rightarrow> string option" where
  "get_aggregation_key_value u rule match =
     (case aggregation_key rule of
        None \<Rightarrow> None
      | Some k \<Rightarrow> (case lookup_es_key u match k of PNone \<Rightarrow> None | v \<Rightarrow> Some (str_of u v)))"

text \<open>\<^verbatim>\<open>find_pending_aggregate_alert\<close>: \<open>res\<close> is the answer of the writeback index to the
  search for a pending aggregate of the rule and key, \<open>Inl\<close> the text of an exception or
  \<open>Inr\<close> the hits, each \<^verbatim>\<open>(_id, alert_time)\<close>.\<close>

definition find_pending_aggregate_alert ::
  "conf \<Rightarrow> (wb_doc \<Rightarrow> string option) \<Rightarrow> string + (string \<times> timestamp) list \<Rightarrow> engine \<Rightarrow>
   (string \<times> timestamp) option \<times> engine" where
  "find_pending_aggregate_alert self es_index res st =
     (case res of
        Inl e \<Rightarrow>
          (None, st\<lparr>docs_written := handle_error self es_index (docs_written st)
                        (''Error searching for pending aggregated matches: '' @ e)\<rparr>)
      | Inr [] \<Rightarrow> (None, st)
      | Inr (h # _) \<Rightarrow> (Some h, st))"

text \<open>The \<^verbatim>\<open>alert_time\<close> of a new aggregation: the next fire time of the cron schedule, or
  the match time or the present plus the aggregation period. Every exception on the way
  is caught and reported, and leaves the empty string (\<open>None\<close>).\<close>

definition new_alert_time ::
  "util \<Rightarrow> conf \<Rightarrow> (wb_doc \<Rightarrow> string option) \<Rightarrow> timestamp \<Rightarrow> doc \<Rightarrow> rule \<Rightarrow> engine \<Rightarrow>
   timestamp option \<times> engine" where
  "new_alert_time u self es_index now match rule st =
     (case aggregation rule of
        Aggregate_schedule schedule \<Rightarrow>
          (case cron_next u schedule now of
             Inr t \<Rightarrow> (Some t, st)
           | Inl e \<Rightarrow>
               (None, st\<lparr>docs_written := handle_error self es_index (docs_written st)
                             ''Error parsing aggregate send time Cron format''\<rparr>))
      | Aggregate_for period \<Rightarrow>
          if aggregate_by_match_time rule then
            (case parse_ts u (lookup_es_key u match (timestamp_field rule)) of
               Inr match_ts \<Rightarrow> (Some (match_ts + period), st)
             | Inl e \<Rightarrow>
                 (None, st\<lparr>docs_written := handle_error self es_index (docs_written st)
                     ''[add_aggregated_alert]Error parsing aggregate send time format''\<rparr>))
          else (Some (now + period), st)
      | No_aggregation \<Rightarrow>
          (None, st\<lparr>docs_written := handle_error self es_index (docs_written st)
              ''[add_aggregated_alert]Error parsing aggregate send time format''\<rparr>))"

text \<open>Whether \<^verbatim>\<open>add_aggregated_alert\<close> opens a new group: no (or an empty) id for the key,
  or a deadline for the key that lies before the instant compared with. The second
  test is made only when the first fails; comparing the empty string with an instant
  raises \<^verbatim>\<open>TypeError\<close>.\<close>

definition opens_new_group ::
  "util \<Rightarrow> timestamp \<Rightarrow> doc \<Rightarrow> rule \<Rightarrow> string option \<Rightarrow> py_exception + bool" where
  "opens_new_group u now match rule akv =
     (case current_aggregate_id rule akv of
        None \<Rightarrow> Inr True
      | Some i \<Rightarrow>
          if i = [] then Inr True
          else
            (case aggregate_alert_time rule akv of
               None \<Rightarrow> Inr False
             | Some deadline \<Rightarrow>
                 (case (if aggregation_alert_time_compared_with_timestamp_field rule
                        then parse_ts u (lookup_es_key u match (timestamp_field rule))
                        else Inr now) of
                    Inl e \<Rightarrow> Inl e
                  | Inr compare_dt \<Rightarrow>
                      (case deadline of
                         None \<Rightarrow> Inl TypeError
                       | Some t \<Rightarrow> Inr (t < compare_dt)))))"

text \<open>\<^verbatim>\<open>add_aggregated_alert(match, rule)\<close> at the instant \<open>now\<close>; \<open>pending_res\<close> is the
  writeback index's answer to \<^verbatim>\<open>find_pending_aggregate_alert\<close>. The result is what the
  method returns (the id of the stored document, if it was stored), the rule and the
  engine.\<close>

definition add_aggregated_alert ::
  "util \<Rightarrow> conf \<Rightarrow> (wb_doc \<Rightarrow> string option) \<Rightarrow> string + (string \<times> timestamp) list \<Rightarrow>
   timestamp \<Rightarrow> engine \<Rightarrow> doc \<Rightarrow> rule \<Rightarrow> py_exception + (string option \<times> rule \<times> engine)" where
  "add_aggregated_alert u self es_index pending_res now st match rule =
     (let akv = get_aggregation_key_value u rule match in
      case opens_new_group u now match rule akv of
        Inl e \<Rightarrow> Inl e
      | Inr new_group \<Rightarrow>
          let (atime, agg_id, rule1, st1) =
                (if new_group then
                   (case find_pending_aggregate_alert self es_index pending_res st of
                      (Some (pending_id, pending_time), st0) \<Rightarrow>
                        (Some pending_time, Some pending_id,
                         rule\<lparr>aggregate_alert_time :=
                                 (aggregate_alert_time rule)(akv \<mapsto> Some pending_time),
                               current_aggregate_id := Map.empty(akv \<mapsto> pending_id)\<rparr>,
                         st0)
                    | (None, st0) \<Rightarrow>
                        (case new_alert_time u self es_index now match rule st0 of
                           (t, st00) \<Rightarrow>
                             (t, None,
                              rule\<lparr>aggregate_alert_time :=
                                      (aggregate_alert_time rule)(akv \<mapsto> t)\<rparr>,
                              st00)))
                 else
                   (case aggregate_alert_time rule akv of None \<Rightarrow> None | Some t \<Rightarrow> t,
                    current_aggregate_id rule akv, rule, st))
          in case get_alert_body u self match rule1 False atime None of
               Inl e \<Rightarrow> Inl e
             | Inr body \<Rightarrow>
                 let agg_id_set = (case agg_id of None \<Rightarrow> False | Some i \<Rightarrow> i \<noteq> []);
                     body1 = (if agg_id_set then body\<lparr>aggregate_id := agg_id\<rparr> else body);
                     body2 = (if (case akv of None \<Rightarrow> False | Some k \<Rightarrow> k \<noteq> [])
                              then body1\<lparr>body_aggregation_key := akv\<rparr> else body1);
                     res = writeback self es_index (docs_written st1) (Alert_doc body2);
                     rule2 = (case fst res of
                                Some new_id \<Rightarrow>
                                  if agg_id_set then rule1
                                  else rule1\<lparr>current_aggregate_id :=
                                               (current_aggregate_id rule1)(akv \<mapsto> new_id)\<rparr>
                              | None \<Rightarrow> rule1\<lparr>agg_matches := agg_matches rule1 @ [match]\<rparr>)
                 in Inr (fst res, rule2, st1\<lparr>docs_written := snd res\<rparr>))"

subsection \<open>\<^verbatim>\<open>process_hits\<close>\<close>

text \<open>\<^verbatim>\<open>d.setdefault(k, v)\<close> and the merge of a hit's \<^verbatim>\<open>fields\<close> into its \<^verbatim>\<open>_source\<close>, where
  a list of length one stands for its element.\<close>

definition setdefault :: "doc \<Rightarrow> string \<Rightarrow> py_value \<Rightarrow> doc" where
  "setdefault d k v = (case map_of d k of None \<Rightarrow> d @ [(k, v)] | Some _ \<Rightarrow> d)"

definition unwrap_single :: "py_value \<Rightarrow> py_value" where
  "unwrap_single v = (case v of PList [x] \<Rightarrow> x | _ \<Rightarrow> v)"

definition merge_fields :: "hit \<Rightarrow> doc" where
  "merge_fields hit =
     foldl (\<lambda>source (key, v). setdefault source key (unwrap_single v))
       (case hit_source hit of None \<Rightarrow> [] | Some s \<Rightarrow> s)
       (case hit_fields hit of None \<Rightarrow> [] | Some f \<Rightarrow> f)"

text \<open>The value that \<^verbatim>\<open>process_hits\<close> finds for the rule's timestamp field in a hit, and
  the message of its \<^verbatim>\<open>EAException\<close>.\<close>

definition hit_timestamp :: "util \<Rightarrow> rule \<Rightarrow> hit \<Rightarrow> py_value" where
  "hit_timestamp u rule hit = lookup_es_key u (merge_fields hit) (timestamp_field rule)"

definition no_timestamp_message :: string where
  "no_timestamp_message =
     ''Error: No timestamp was found for hit. '' @ [CHR 0x27] @ ''_source_enabled'' @ [CHR 0x27] @
     '' is set to false, check your mappings for stored fields''"

text \<open>A compound key: when the rule has a non-empty list of key fields, their values,
  joined by a comma and a space, are stored in the source under the rule's key.\<close>

definition compound_key ::
  "util \<Rightarrow> string list option \<Rightarrow> string option \<Rightarrow> string \<Rightarrow> doc \<Rightarrow> py_exception + doc" where
  "compound_key u key_fields target target_name source =
     (case key_fields of
        None \<Rightarrow> Inr source
      | Some [] \<Rightarrow> Inr source
      | Some (k # ks) \<Rightarrow>
          (case target of
             None \<Rightarrow> Inl (KeyError target_name)
           | Some t \<Rightarrow>
               Inr (AList.update t
                      (PStr (join '', '' (map (\<lambda>key. str_of u (lookup_es_key u source key))
                                              (k # ks))))
                      source)))"

text \<open>The body of the loop of \<^verbatim>\<open>process_hits\<close> for one hit: the processed \<^verbatim>\<open>_source\<close>.
  \<^verbatim>\<open>rule["_source_enabled"]\<close> is read only when the timestamp is falsy.\<close>

definition process_hit :: "util \<Rightarrow> rule \<Rightarrow> hit \<Rightarrow> py_exception + doc" where
  "process_hit u rule hit =
     (let source1 = merge_fields hit;
          ts = hit_timestamp u rule hit
      in (case (if \<not> truthy ts
               then (case source_enabled rule of
                       None \<Rightarrow> Inl (KeyError ''_source_enabled'')
                     | Some enabled \<Rightarrow>
                         if \<not> enabled then Inl (EAException no_timestamp_message)
                         else Inr ())
               else Inr ()) of
           Inl e \<Rightarrow> Inl e
         | Inr _ \<Rightarrow>
             (case ts_to_dt u ts of
                Inl e \<Rightarrow> Inl e
              | Inr dt \<Rightarrow>
                  let source2 = set_es_key u source1 (timestamp_field rule) dt;
                      meta1 = set_es_key u (hit_meta hit) (timestamp_field rule)
                                (lookup_es_key u source2 (timestamp_field rule));
                      source3 = foldl (\<lambda>source field.
                                         case map_of meta1 field of
                                           None \<Rightarrow> source
                                         | Some v \<Rightarrow> AList.update field v source)
                                  source2 [''_id'', ''_index'', ''_type'']
                  in (case compound_key u (compound_query_key rule) (query_key rule)
                             ''query_key'' source3 of
                        Inl e \<Rightarrow> Inl e
                      | Inr source4 \<Rightarrow>
                          compound_key u (compound_aggregation_key rule) (aggregation_key rule)
                            ''aggregation_key'' source4))))"

fun process_hits_loop :: "util \<Rightarrow> rule \<Rightarrow> hit list \<Rightarrow> doc list \<Rightarrow> py_exception + doc list" where
  "process_hits_loop u rule [] processed = Inr processed"
| "process_hits_loop u rule (hit # hits) processed =
     (case process_hit u rule hit of
        Inl e \<Rightarrow> Inl e
      | Inr source \<Rightarrow> process_hits_loop u rule hits (processed @ [source]))"

definition process_hits :: "util \<Rightarrow> rule \<Rightarrow> hit list \<Rightarrow> py_exception + doc list" where
  "process_hits u rule hits = process_hits_loop u rule hits []"

subsection \<open>The queries of a rule\<close>

text \<open>A search (or scroll) response: the \<^verbatim>\<open>_scroll_id\<close> if there is one, the total number
  of hits, the hits of the page, and \<open>res_failure\<close>: the text of the
  \<^verbatim>\<open>ElasticsearchException\<close> that \<^verbatim>\<open>get_hits\<close> raises for the shard failures of the response,
  \<open>None\<close> when it raises none.\<close>

record search_result =
  res_scroll_id :: "string option"
  res_total :: int
  res_failure :: "string option"
  res_hits :: "hit list"

text \<open>The rule's cluster: its answer to a request, given the number of requests of the
  tick that came before; \<open>Inl\<close> is the text of an \<^verbatim>\<open>ElasticsearchException\<close>. A terms or
  aggregation answer is \<open>None\<close> when the response has no \<^verbatim>\<open>aggregations\<close>; an aggregation
  answer is the payload and \<^verbatim>\<open>hits.total.value\<close>.\<close>

record cluster =
  es_search :: "nat \<Rightarrow> es_request \<Rightarrow> string + search_result"
  es_count :: "nat \<Rightarrow> es_request \<Rightarrow> string + int"
  es_terms :: "nat \<Rightarrow> es_request \<Rightarrow> string + doc list option"
  es_aggs :: "nat \<Rightarrow> es_request \<Rightarrow> string + (doc \<times> int) option"

text \<open>A method that works on the rule and the engine returns its value with the rule and
  the engine as it leaves them, or raises, leaving them as they are at the raise.\<close>

type_synonym 'a outcome = "(py_exception \<times> rule \<times> engine) + ('a \<times> rule \<times> engine)"

text \<open>Python's \<^verbatim>\<open>'%d' % n\<close> for a natural number, and the cut of an exception text that
  is longer than 1024 characters:
  \<^verbatim>\<open>str(e)[:1024] + '... (%d characters removed)' % (len(str(e)) - 1024)\<close>.\<close>

fun str_nat :: "nat \<Rightarrow> string" where
  "str_nat n = (if n < 10 then [''0123456789'' ! n]
                else str_nat (n div 10) @ [''0123456789'' ! (n mod 10)])"

declare str_nat.simps [simp del]

definition truncate_error :: "string \<Rightarrow> string" where
  "truncate_error e =
     (if length e > 1024
      then take 1024 e @ ''... ('' @ str_nat (length e - 1024) @ '' characters removed)''
      else e)"

text \<open>\<^verbatim>\<open>get_hits(rule, starttime, endtime, index, scroll)\<close>: the processed hits, or \<^verbatim>\<open>None\<close>
  after an \<^verbatim>\<open>ElasticsearchException\<close>, which is reported. The exceptions of
  \<^verbatim>\<open>process_hits\<close> and the \<^verbatim>\<open>KeyError\<close> of a scroll without \<^verbatim>\<open>scroll_id\<close> leave the method.\<close>

definition get_hits ::
  "util \<Rightarrow> conf \<Rightarrow> (wb_doc \<Rightarrow> string option) \<Rightarrow> cluster \<Rightarrow> engine \<Rightarrow> rule \<Rightarrow>
   timestamp \<Rightarrow> timestamp \<Rightarrow> bool \<Rightarrow> doc list option outcome" where
  "get_hits u self es_index es st rule start endtime scroll =
     (case (if scroll
            then (case scroll_id rule of
                    None \<Rightarrow> Inl (KeyError ''scroll_id'')
                  | Some sid \<Rightarrow> Inr (Scroll_request sid))
            else Inr (Search_request start endtime)) of
        Inl e \<Rightarrow> Inl (e, rule, st)
      | Inr request \<Rightarrow>
          let st1 = st\<lparr>es_requests := es_requests st @ [request]\<rparr>
          in (case es_search es (length (es_requests st)) request of
                Inl text \<Rightarrow>
                  Inr (None, rule,
                       st1\<lparr>docs_written := handle_error self es_index (docs_written st1)
                              (''Error running query: '' @ truncate_error text)\<rparr>)
              | Inr res \<Rightarrow>
                  let rule1 = (if scroll then rule
                               else (case res_scroll_id res of
                                       None \<Rightarrow> rule
                                     | Some sid \<Rightarrow> rule\<lparr>scroll_id := Some sid\<rparr>));
                      st2 = (if scroll then st1 else st1\<lparr>total_hits := res_total res\<rparr>)
                  in (case res_failure res of
                        Some text \<Rightarrow>
                          Inr (None, rule1,
                               st2\<lparr>docs_written := handle_error self es_index (docs_written st2)
                                      (''Error running query: '' @ truncate_error text)\<rparr>)
                      | None \<Rightarrow>
                          let st3 = st2\<lparr>num_hits := num_hits st2 + int (length (res_hits res))\<rparr>
                          in (case process_hits u rule1 (res_hits res) of
                                Inl e \<Rightarrow> Inl (e, rule1, st3)
                              | Inr hits \<Rightarrow> Inr (Some hits, rule1, st3)))))"

text \<open>What a query gives \<^verbatim>\<open>run_query\<close>: \<^verbatim>\<open>None\<close> (the query failed), something falsy (an
  empty list or dict), or data for the rule type.\<close>

datatype query_data = Query_failed | No_data | Data feed

definition get_hits_count ::
  "conf \<Rightarrow> (wb_doc \<Rightarrow> string option) \<Rightarrow> cluster \<Rightarrow> engine \<Rightarrow> rule \<Rightarrow> timestamp \<Rightarrow>
   timestamp \<Rightarrow> query_data outcome" where
  "get_hits_count self es_index es st rule start endtime =
     (let st1 = st\<lparr>es_requests := es_requests st @ [Count_request start endtime]\<rparr>
      in case es_count es (length (es_requests st)) (Count_request start endtime) of
           Inl text \<Rightarrow>
             Inr (Query_failed, rule,
                  st1\<lparr>docs_written := handle_error self es_index (docs_written st1)
                         (''Error running count query: '' @ truncate_error text)\<rparr>)
         | Inr n \<Rightarrow>
             Inr (Data (Add_count_data endtime n), rule, st1\<lparr>num_hits := num_hits st1 + n\<rparr>))"

definition get_hits_terms ::
  "conf \<Rightarrow> (wb_doc \<Rightarrow> string option) \<Rightarrow> cluster \<Rightarrow> engine \<Rightarrow> rule \<Rightarrow> timestamp \<Rightarrow>
   timestamp \<Rightarrow> string \<Rightarrow> query_data outcome" where
  "get_hits_terms self es_index es st rule start endtime key =
     (let st1 = st\<lparr>es_requests := es_requests st @ [Terms_request start endtime key]\<rparr>
      in case es_terms es (length (es_requests st)) (Terms_request start endtime key) of
           Inl text \<Rightarrow>
             Inr (Query_failed, rule,
                  st1\<lparr>docs_written := handle_error self es_index (docs_written st1)
                         (''Error running terms query: '' @ truncate_error text)\<rparr>)
         | Inr None \<Rightarrow> Inr (No_data, rule, st1)
         | Inr (Some buckets) \<Rightarrow>
             Inr (Data (Add_terms_data endtime buckets), rule,
                  st1\<lparr>num_hits := num_hits st1 + int (length buckets)\<rparr>))"

definition get_hits_aggregation ::
  "conf \<Rightarrow> (wb_doc \<Rightarrow> string option) \<Rightarrow> cluster \<Rightarrow> engine \<Rightarrow> rule \<Rightarrow> timestamp \<Rightarrow>
   timestamp \<Rightarrow> query_data outcome" where
  "get_hits_aggregation self es_index es st rule start endtime =
     (let st1 = st\<lparr>es_requests := es_requests st @ [Aggregation_request start endtime]\<rparr>
      in case es_aggs es (length (es_requests st)) (Aggregation_request start endtime) of
           Inl text \<Rightarrow>
             Inr (Query_failed, rule,
                  st1\<lparr>docs_written := handle_error self es_index (docs_written st1)
                         (''Error running query: '' @ truncate_error text)\<rparr>)
         | Inr None \<Rightarrow> Inr (No_data, rule, st1)
         | Inr (Some (payload, total_value)) \<Rightarrow>
             Inr (Data (Add_aggregation_data endtime payload), rule,
                  st1\<lparr>num_hits := num_hits st1 + total_value\<rparr>))"

text \<open>\<^verbatim>\<open>remove_duplicate_events(data, rule)\<close>: the loop, on the map \<^verbatim>\<open>rule['processed_hits']\<close>
  and the list \<^verbatim>\<open>new_events\<close>. \<^verbatim>\<open>event['_id']\<close> raises \<^verbatim>\<open>KeyError\<close> for an event without the
  key.\<close>

fun remove_duplicate_events_loop ::
  "util \<Rightarrow> string \<Rightarrow> doc list \<Rightarrow> (py_value \<rightharpoonup> py_value) \<Rightarrow> doc list \<Rightarrow>
   (py_exception \<times> (py_value \<rightharpoonup> py_value)) + (doc list \<times> (py_value \<rightharpoonup> py_value))" where
  "remove_duplicate_events_loop u ts_field [] seen new_events = Inr (new_events, seen)"
| "remove_duplicate_events_loop u ts_field (event # events) seen new_events =
     (case map_of event ''_id'' of
        None \<Rightarrow> Inl (KeyError ''_id'', seen)
      | Some i \<Rightarrow>
          if seen i \<noteq> None
          then remove_duplicate_events_loop u ts_field events seen new_events
          else remove_duplicate_events_loop u ts_field events
                 (seen(i \<mapsto> lookup_es_key u event ts_field)) (new_events @ [event]))"

definition remove_duplicate_events ::
  "util \<Rightarrow> doc list \<Rightarrow> rule \<Rightarrow> (py_exception \<times> rule) + (doc list \<times> rule)" where
  "remove_duplicate_events u data rule =
     (case remove_duplicate_events_loop u (timestamp_field rule) data (processed_hits rule) [] of
        Inl (e, seen) \<Rightarrow> Inl (e, rule\<lparr>processed_hits := seen\<rparr>)
      | Inr (new_events, seen) \<Rightarrow> Inr (new_events, rule\<lparr>processed_hits := seen\<rparr>))"

text \<open>The query of \<^verbatim>\<open>run_query\<close>, by the mode of the rule; in search mode the hits that
  are not empty go through \<^verbatim>\<open>remove_duplicate_events\<close> and \<^verbatim>\<open>num_dupes\<close> grows by the number
  of events dropped.\<close>

definition fetch_data ::
  "util \<Rightarrow> conf \<Rightarrow> (wb_doc \<Rightarrow> string option) \<Rightarrow> cluster \<Rightarrow> engine \<Rightarrow> rule \<Rightarrow>
   timestamp \<Rightarrow> timestamp \<Rightarrow> bool \<Rightarrow> query_data outcome" where
  "fetch_data u self es_index es st rule start endtime scroll =
     (if use_count_query rule then get_hits_count self es_index es st rule start endtime
      else if use_terms_query rule then
        (case query_key rule of
           None \<Rightarrow> Inl (KeyError ''query_key'', rule, st)
         | Some key \<Rightarrow> get_hits_terms self es_index es st rule start endtime key)
      else if aggregation_query_element rule then
        get_hits_aggregation self es_index es st rule start endtime
      else
        (case get_hits u self es_index es st rule start endtime scroll of
           Inl x \<Rightarrow> Inl x
         | Inr (None, rule1, st1) \<Rightarrow> Inr (Query_failed, rule1, st1)
         | Inr (Some [], rule1, st1) \<Rightarrow> Inr (No_data, rule1, st1)
         | Inr (Some (d # ds), rule1, st1) \<Rightarrow>
             (case remove_duplicate_events u (d # ds) rule1 of
                Inl (e, rule2) \<Rightarrow> Inl (e, rule2, st1)
              | Inr (new_events, rule2) \<Rightarrow>
                  Inr (if new_events = [] then No_data else Data (Add_data new_events),
                       rule2,
                       st1\<lparr>num_dupes := num_dupes st1 +
                              (int (length (d # ds)) - int (length new_events))\<rparr>))))"

definition cleanup_scroll_id :: "rule \<Rightarrow> rule" where
  "cleanup_scroll_id rule = rule\<lparr>scroll_id := None\<rparr>"

text \<open>\<^verbatim>\<open>run_query(rule, start, end, scroll)\<close> with both instants given and no
  \<^verbatim>\<open>query_timezone\<close>. The method calls itself for the next page of a scroll; \<open>depth\<close> is
  the number of nested calls that Python's recursion limit still allows, and a call
  beyond it raises \<^verbatim>\<open>RuntimeError\<close>, which the calling \<^verbatim>\<open>run_query\<close> catches. The
  \<^verbatim>\<open>finally\<close> clause clears the scroll id on every way out of the \<^verbatim>\<open>try\<close>.\<close>

fun run_query ::
  "nat \<Rightarrow> util \<Rightarrow> conf \<Rightarrow> (wb_doc \<Rightarrow> string option) \<Rightarrow> cluster \<Rightarrow> engine \<Rightarrow> rule \<Rightarrow>
   timestamp \<Rightarrow> timestamp \<Rightarrow> bool \<Rightarrow> bool outcome" where
  "run_query 0 u self es_index es st rule start endtime scroll = Inl (RuntimeError, rule, st)"
| "run_query (Suc depth) u self es_index es st rule start endtime scroll =
     (case fetch_data u self es_index es st
             (rule\<lparr>scrolling_cycle :=
                     Some ((case scrolling_cycle rule of None \<Rightarrow> 0 | Some c \<Rightarrow> c) + 1)\<rparr>)
             start endtime scroll of
        Inl x \<Rightarrow> Inl x
      | Inr (data, rule1, st1) \<Rightarrow>
          if data = Query_failed then Inr (False, rule1, st1)
          else
            let st2 = (case data of Data f \<Rightarrow> st1\<lparr>fed := fed st1 @ [f]\<rparr> | _ \<Rightarrow> st1)
            in if (case scroll_id rule1 of None \<Rightarrow> False | Some sid \<Rightarrow> sid \<noteq> []) \<and>
                  num_hits st2 < total_hits st2 \<and> should_scrolling_continue u rule1
               then
                 (case run_query depth u self es_index es st2 rule1 start endtime True of
                    Inr (ok, rule2, st3) \<Rightarrow> Inr (ok, cleanup_scroll_id rule2, st3)
                  | Inl (e, rule2, st3) \<Rightarrow>
                      if e = RuntimeError then Inr (True, cleanup_scroll_id rule2, st3)
                      else Inl (e, cleanup_scroll_id rule2, st3))
               else Inr (True, cleanup_scroll_id rule1, st2))"

subsection \<open>What a search run leaves behind\<close>






text \<open>What the theorem on the stored timestamps asks of the helpers of \<^verbatim>\<open>util.py\<close> and of
  the rule: \<^verbatim>\<open>lookup_es_key\<close> reads back what \<^verbatim>\<open>set_es_key\<close> has written for the timestamp
  field; writing that field leaves the \<^verbatim>\<open>_id\<close> of a hit alone; and the keys that
  \<^verbatim>\<open>process_hits\<close> assigns afterwards (the metadata fields and the targets of the compound
  keys) are neither the timestamp field, as \<^verbatim>\<open>lookup_es_key\<close> reads it, nor \<^verbatim>\<open>_id\<close>.\<close>

definition timestamp_kept :: "util \<Rightarrow> rule \<Rightarrow> bool" where
  "timestamp_kept u rule =
     ((\<forall>d v. lookup_es_key u (set_es_key u d (timestamp_field rule) v) (timestamp_field rule) = v) \<and>
      (\<forall>d v. map_of (set_es_key u d (timestamp_field rule) v) ''_id'' = map_of d ''_id'') \<and>
      (\<forall>d v f. f \<in> set [''_id'', ''_index'', ''_type''] \<or> query_key rule = Some f \<or>
                aggregation_key rule = Some f \<longrightarrow>
         lookup_es_key u (AList.update f v d) (timestamp_field rule)
           = lookup_es_key u d (timestamp_field rule)) \<and>
      query_key rule \<noteq> Some ''_id'' \<and> aggregation_key rule \<noteq> Some ''_id'')"

subsection \<open>\<^verbatim>\<open>run_rule\<close>, to the end of its queries\<close>








subsection \<open>Example values\<close>

text \<open>A rule as the loader leaves it when the rule file sets nothing optional, and an
  engine with \<^verbatim>\<open>buffer_time\<close> of five minutes and \<^verbatim>\<open>run_every\<close> of one minute.\<close>

definition example_rule :: rule where
  "example_rule = \<lparr>rule_name = ''example'', rule_filter = [], filter_by_list = None,
     blacklist = None, whitelist = None, compare_key = None, starttime = None,
     minimum_starttime = None, previous_endtime = None, original_starttime = None,
     bucket_offset_delta = None, buffer_time = None, timeframe = None, run_every = 60,
     scan_entire_timeframe = False, use_count_query = False, use_terms_query = False,
     aggregation_query_element = False, allow_buffer_time_overlap = False,
     use_run_every_query_size = False, bucket_interval = False,
     bucket_interval_timedelta = None, sync_bucket_interval = False, realert = 60,
     exponential_realert = None, timestamp_field = ''@timestamp'',
     source_enabled = Some True, query_key = None, compound_query_key = None,
     aggregation_key = None, compound_aggregation_key = None, max_query_size = None,
     scroll_id = None, scrolling_cycle = None, processed_hits = Map.empty,
     agg_matches = [], current_aggregate_id = Map.empty,
     aggregate_alert_time = Map.empty, aggregation = No_aggregation,
     aggregate_by_match_time = False,
     aggregation_alert_time_compared_with_timestamp_field = False, alert = [],
     match_enhancements = [], run_enhancements_first = False\<rparr>"

definition example_conf :: conf where
  "example_conf = \<lparr>conf_buffer_time = 300, conf_run_every = 60, debug = False\<rparr>"

text \<open>Helpers for the examples: a flat dict lookup, a \<^verbatim>\<open>ts_to_dt\<close> that takes an integer
  for seconds since the epoch, and an engine that has done nothing yet.\<close>

definition example_util :: util where
  "example_util =
     \<lparr>lookup_es_key = (\<lambda>d k. case map_of d k of None \<Rightarrow> PNone | Some v \<Rightarrow> v),
      set_es_key = (\<lambda>d k v. AList.update k v d),
      ts_to_dt = (\<lambda>v. case v of PInt i \<Rightarrow> Inr (PTime i) | PTime t \<Rightarrow> Inr (PTime t)
                       | _ \<Rightarrow> Inl TypeError),
      parse_ts = (\<lambda>v. case v of PInt i \<Rightarrow> Inr i | PTime t \<Rightarrow> Inr t | _ \<Rightarrow> Inl TypeError),
      str_of = (\<lambda>v. case v of PStr s \<Rightarrow> s | _ \<Rightarrow> ''?''),
      cron_next = (\<lambda>schedule t. Inr (t + 60)),
      should_scrolling_continue = (\<lambda>r. True)\<rparr>"

definition example_engine :: engine where
  "example_engine = \<lparr>num_hits = 0, num_dupes = 0, total_hits = 0, cumulative_hits = 0,
     alerts_sent = 0, docs_written = [], es_requests = [], fed = [], invoked = []\<rparr>"

text \<open>A rule that aggregates by the field \<^verbatim>\<open>user\<close> for ten minutes, with an open group
  for the user \<^verbatim>\<open>bob\<close>.\<close>

definition example_agg_rule :: rule where
  "example_agg_rule = example_rule\<lparr>aggregation_key := Some ''user'',
     aggregation := Aggregate_for 600,
     alert := [\<lparr>alerter_type = ''email'', alert_fn = (\<lambda>ms. Delivered)\<rparr>],
     current_aggregate_id := Map.empty(Some ''bob'' \<mapsto> ''id_bob''),
     aggregate_alert_time := Map.empty(Some ''bob'' \<mapsto> Some 500)\<rparr>"

text \<open>A cluster whose every search fails with an error text of 1025 characters.\<close>

definition failing_cluster :: cluster where
  "failing_cluster = \<lparr>es_search = (\<lambda>n request. Inl (replicate 1025 (CHR ''x''))),
     es_count = (\<lambda>n request. Inr 0), es_terms = (\<lambda>n request. Inr None),
     es_aggs = (\<lambda>n request. Inr None)\<rparr>"



section \<open>Properties\<close>

subsection \<open>The blacklist and whitelist filter\<close>

lemma startswith_hd: "startswith t c \<longleftrightarrow> t \<noteq> [] \<and> hd t = c"
  by (cases t) (simp_all add: startswith_def)

lemma endswith_last: "endswith t c \<longleftrightarrow> t \<noteq> [] \<and> last t = c"
  by (cases t rule: rev_cases) (simp_all add: endswith_def)

lemma additional_terms_loop_map:
  "additional_terms_loop (Some c) ts acc =
     Inr (acc @ map (\<lambda>t. if t \<noteq> [] \<and> hd t = CHR ''/'' \<and> last t = CHR ''/''
                           then c @ '':'' @ t
                           else c @ [CHR '':'', CHR 0x22] @ t @ [CHR 0x22]) ts)"
  by (induction ts arbitrary: acc) (auto simp: startswith_hd endswith_last)

text \<open>
  Claim C9. For a rule whose \<^verbatim>\<open>filter_by_list\<close> is not disabled and whose \<^verbatim>\<open>compare_key\<close> is
  \<open>c\<close>: when the rule has a whitelist \<open>ts\<close> (and no blacklist, the two lists being
  alternatives), \<^verbatim>\<open>enhance_filter\<close> appends exactly one \<^verbatim>\<open>query_string\<close> filter to the rule's
  filters, with the query \<^verbatim>\<open>NOT\<close> followed by the terms joined by \<^verbatim>\<open>AND NOT\<close>; when the rule
  has a blacklist \<open>ts\<close>, which the method looks for first, the query is the terms joined by
  \<^verbatim>\<open>OR\<close>. A term is \<^verbatim>\<open>c:"t"\<close>, and \<^verbatim>\<open>c:t\<close> without quotes when \<open>t\<close> both starts and ends
  with a slash. Nothing else of the rule changes.
\<close>

theorem enhance_filter_query:
  \<open>filter_by_list rule \<noteq> Some False \<Longrightarrow> compare_key rule = Some c \<Longrightarrow>
   (blacklist rule = None \<and> whitelist rule = Some ts \<longrightarrow>
      enhance_filter rule = Inr (rule\<lparr>rule_filter := rule_filter rule @
        [Query_string (''NOT '' @ join '' AND NOT ''
           (map (\<lambda>t. if t \<noteq> [] \<and> hd t = CHR ''/'' \<and> last t = CHR ''/''
                      then c @ '':'' @ t else c @ '':"'' @ t @ ''"'') ts))]\<rparr>)) \<and>
   (blacklist rule = Some ts \<longrightarrow>
      enhance_filter rule = Inr (rule\<lparr>rule_filter := rule_filter rule @
        [Query_string (join '' OR ''
           (map (\<lambda>t. if t \<noteq> [] \<and> hd t = CHR ''/'' \<and> last t = CHR ''/''
                      then c @ '':'' @ t else c @ '':"'' @ t @ ''"'') ts))]\<rparr>))\<close>
  by (cases "filter_by_list rule")
     (auto simp: enhance_filter_def additional_terms_loop_map)

text \<open>The scenario of the specification: the whitelist \<^verbatim>\<open>["alice", "bob"]\<close> on the key
  \<^verbatim>\<open>user\<close>.\<close>

theorem enhance_filter_query_witness:
  \<open>enhance_filter
     (example_rule\<lparr>whitelist := Some [''alice'', ''bob''], compare_key := Some ''user''\<rparr>)
   = Inr (example_rule\<lparr>whitelist := Some [''alice'', ''bob''], compare_key := Some ''user'',
            rule_filter := [Query_string ''NOT user:"alice" AND NOT user:"bob"'']\<rparr>)\<close>
  using enhance_filter_query
    [of "example_rule\<lparr>whitelist := Some [''alice'', ''bob''], compare_key := Some ''user''\<rparr>"
        "''user''" "[''alice'', ''bob'']"]
  by (simp add: example_rule_def)

subsection \<open>The start of the next window\<close>

lemma adjust_overlap_plain:
  "\<not> aggregation_query_element rule \<Longrightarrow>
   adjust_start_time_for_overlapping_agg_query rule = Inr rule"
  by (simp add: adjust_start_time_for_overlapping_agg_query_def)

lemma adjust_sync_plain:
  "\<not> aggregation_query_element rule \<Longrightarrow>
   adjust_start_time_for_interval_sync rule endtime = Inr rule"
  by (simp add: adjust_start_time_for_interval_sync_def)

text \<open>
  Claim C1, as amended. In plain search mode (no count, terms or aggregation query,
  \<^verbatim>\<open>scan_entire_timeframe\<close> unset), for a rule whose \<^verbatim>\<open>minimum_starttime\<close> is \<open>m\<close> and whose
  \<^verbatim>\<open>previous_endtime\<close> is \<open>p\<close>, \<^verbatim>\<open>set_starttime\<close> changes nothing of the rule but
  \<^verbatim>\<open>starttime\<close> (and, on a fresh start, \<^verbatim>\<open>minimum_starttime\<close>):

  \<^item> a rule without a \<^verbatim>\<open>starttime\<close> for which the writeback index knows a recent run
    resumes at the end \<open>l\<close> of that run, which also becomes its \<^verbatim>\<open>minimum_starttime\<close>;
  \<^item> otherwise, with \<open>buffer_delta = endtime - buffer_time\<close>, the new start \<open>s\<close> is \<open>m\<close>
    when \<open>m > buffer_delta\<close> and \<open>min p buffer_delta\<close> when not. So
    \<open>min p buffer_delta \<le> s \<le> max m p\<close>: the window never starts after the later of
    the resume point and the previous end (no gap), and it may start before the previous
    end (the windows of a search rule overlap by up to \<^verbatim>\<open>buffer_time\<close>).
\<close>

theorem set_starttime_plain_search:
  assumes "\<not> use_count_query rule" and "\<not> use_terms_query rule"
    and "\<not> aggregation_query_element rule" and "\<not> scan_entire_timeframe rule"
    and "minimum_starttime rule = Some m" and "previous_endtime rule = Some p"
    and "buffer_delta =
           endtime - (case buffer_time rule of None \<Rightarrow> conf_buffer_time self | Some bt \<Rightarrow> bt)"
  shows "(starttime rule = None \<and> last_run_end = Some l \<longrightarrow>
            set_starttime self last_run_end rule endtime
              = Inr (rule\<lparr>starttime := Some l, minimum_starttime := Some l\<rparr>)) \<and>
         (starttime rule \<noteq> None \<or> last_run_end = None \<longrightarrow>
            (\<exists>s. set_starttime self last_run_end rule endtime
                    = Inr (rule\<lparr>starttime := Some s\<rparr>) \<and>
                 s = (if m > buffer_delta then m else min p buffer_delta) \<and>
                 min p buffer_delta \<le> s \<and> s \<le> max m p))"
  using assms
  by (auto simp: set_starttime_def adjust_overlap_plain adjust_sync_plain min_def max_def)

text \<open>The second tick of scenario S1 of the specification, with \<open>T = 600\<close>: the rule
  resumed at \<open>T - 2min = 480\<close> and ran up to \<open>T\<close>; the tick at \<open>T + 1min\<close> starts at 480
  again. And a fresh start that resumes at 480.\<close>

theorem set_starttime_plain_search_witness:
  "set_starttime example_conf None
     (example_rule\<lparr>starttime := Some 480, minimum_starttime := Some 480,
        previous_endtime := Some 600\<rparr>) 660
   = Inr (example_rule\<lparr>starttime := Some 480, minimum_starttime := Some 480,
            previous_endtime := Some 600\<rparr>) \<and>
   set_starttime example_conf (Some 480)
     (example_rule\<lparr>minimum_starttime := Some 0, previous_endtime := Some 0\<rparr>) 600
   = Inr (example_rule\<lparr>minimum_starttime := Some 480, previous_endtime := Some 0,
            starttime := Some 480\<rparr>)"
  using set_starttime_plain_search
      [of "example_rule\<lparr>starttime := Some 480, minimum_starttime := Some 480,
             previous_endtime := Some 600\<rparr>" 480 600 360 660 example_conf None 0]
    set_starttime_plain_search
      [of "example_rule\<lparr>minimum_starttime := Some 0, previous_endtime := Some 0\<rparr>"
          0 0 300 600 example_conf "Some 480" 480]
  by (simp add: example_rule_def example_conf_def)

text \<open>The claim as written asks for \<open>s \<ge> max m p\<close>. In the tick above \<open>m = 480\<close>,
  \<open>p = 600\<close> and the window starts at 480, before the previous end.\<close>

theorem set_starttime_overlap_counterexample:
  "minimum_starttime (example_rule\<lparr>starttime := Some 480, minimum_starttime := Some 480,
      previous_endtime := Some 600\<rparr>) = Some 480 \<and>
   previous_endtime (example_rule\<lparr>starttime := Some 480, minimum_starttime := Some 480,
      previous_endtime := Some 600\<rparr>) = Some 600 \<and>
   set_starttime example_conf None
     (example_rule\<lparr>starttime := Some 480, minimum_starttime := Some 480,
        previous_endtime := Some 600\<rparr>) 660
   = Inr (example_rule\<lparr>starttime := Some 480, minimum_starttime := Some 480,
            previous_endtime := Some 600\<rparr>) \<and>
   \<not> (max (480::int) 600 \<le> 480)"
  by (simp add: set_starttime_def example_rule_def example_conf_def
        adjust_start_time_for_interval_sync_def)

subsection \<open>The next silence deadline\<close>










subsection \<open>Silence: the cache and the writeback index\<close>

text \<open>
  Claim C3, as amended. \<^verbatim>\<open>is_silenced(k)\<close> returns true, leaving the cache as it is and
  sending no search, when the cache holds \<open>(until, exponent)\<close> for \<open>k\<close> with \<open>now < until\<close>.
  Otherwise (no entry, or an expired one, which it evicts) the answer comes from the
  writeback index, outside debug mode: the method sends one search, for the \<^verbatim>\<open>silence\<close>
  documents whose \<^verbatim>\<open>rule_name\<close> is \<open>k\<close>, sorted by \<^verbatim>\<open>until\<close> descending, of size one (the
  newest silence of the key). When the search finds a document, its \<open>(until, exponent)\<close>
  (the exponent 0 when the document has none) is cached and the verdict is \<open>now < until\<close>;
  when the search finds none the verdict is false and nothing is cached; when the search
  raises, the verdict is false, nothing is cached and the error goes to \<^verbatim>\<open>handle_error\<close>.
  In debug mode the verdict is false and no search is sent, whatever the index holds.
\<close>

theorem is_silenced_cases:
  "(\<forall>until exponent. cache k = Some (until, exponent) \<and> now < until \<longrightarrow>
      is_silenced self es_index wb_search now cache written k = (True, cache, written, [])) \<and>
   ((cache k = None \<or> (\<exists>until exponent. cache k = Some (until, exponent) \<and> \<not> now < until)) \<longrightarrow>
      (debug self \<longrightarrow>
         is_silenced self es_index wb_search now cache written k
           = (False, cache(k := None), written, [])) \<and>
      (\<not> debug self \<longrightarrow>
         (\<forall>query. query = \<lparr>term_rule_name = k, sort_field = ''until'', sort_order = ''desc'',
                            search_size = 1, source_includes = [''until'', ''exponent'']\<rparr> \<longrightarrow>
            (\<forall>until exponent rest. wb_search query = Inr ((until, exponent) # rest) \<longrightarrow>
               is_silenced self es_index wb_search now cache written k =
                 (now < until,
                  cache(k \<mapsto> (until, case exponent of None \<Rightarrow> 0 | Some x \<Rightarrow> x)), written,
                  [query])) \<and>
            (wb_search query = Inr [] \<longrightarrow>
               is_silenced self es_index wb_search now cache written k =
                 (False, cache(k := None), written, [query])) \<and>
            (\<forall>e. wb_search query = Inl e \<longrightarrow>
               is_silenced self es_index wb_search now cache written k =
                 (False, cache(k := None),
                  handle_error self es_index written
                    (''Error while querying for alert silence status: '' @ e),
                  [query])))))"
  by (auto simp: is_silenced_def Let_def split: option.splits)

text \<open>An engine whose cache is empty finds a silence until 100 in the index at instant
  50: the key is silenced and the entry cached. The index here holds silences of two
  keys and answers the search for a key with the newest silence of that key.\<close>

theorem is_silenced_cases_witness:
  "is_silenced example_conf (\<lambda>d. Some ''id'')
     (\<lambda>q. if term_rule_name q = ''k'' \<and> sort_field q = ''until'' \<and> sort_order q = ''desc''
          then Inr (take (search_size q) [(100, Some 2), (40, Some 1)])
          else Inr (take (search_size q) [(70, None)]))
     50 Map.empty [] ''k''
     = (True, Map.empty(''k'' \<mapsto> (100, 2)), [],
        [\<lparr>term_rule_name = ''k'', sort_field = ''until'', sort_order = ''desc'',
          search_size = 1, source_includes = [''until'', ''exponent'']\<rparr>])"
  using is_silenced_cases
    [where cache = Map.empty and k = "''k''" and now = 50 and self = example_conf
       and es_index = "\<lambda>d. Some ''id''" and written = "[]"
       and wb_search = "\<lambda>q. if term_rule_name q = ''k'' \<and> sort_field q = ''until'' \<and>
                               sort_order q = ''desc''
          then Inr (take (search_size q) [(100, Some 2), (40, Some 1)])
          else Inr (take (search_size q) [(70, None)])"]
  by (simp add: example_conf_def)

text \<open>The same call in debug mode: the index holds a silence that has not expired, and
  the verdict is false, without a search.\<close>

theorem is_silenced_debug_counterexample:
  "debug (example_conf\<lparr>debug := True\<rparr>) \<and>
   is_silenced (example_conf\<lparr>debug := True\<rparr>) (\<lambda>d. Some ''id'') (\<lambda>q. Inr [(100, Some 2)]) 50
     Map.empty [] ''k'' = (False, Map.empty, [], []) \<and>
   (50::rat) < 100"
  by (simp add: is_silenced_def example_conf_def)

subsection \<open>Alerters and the record of an alert\<close>








subsection \<open>The map of open aggregation groups\<close>

text \<open>When no pending aggregate is found in the writeback index, the new group touches
  the entry of its own key only.\<close>

lemma add_aggregated_alert_fresh_keeps_others:
  assumes "add_aggregated_alert u self es_index pending_res now st match rule = Inr (res, rule', st')"
    and "find_pending_aggregate_alert self es_index pending_res st = (None, st0)"
    and "k \<noteq> get_aggregation_key_value u rule match"
  shows "current_aggregate_id rule' k = current_aggregate_id rule k"
  using assms
  by (auto simp: add_aggregated_alert_def Let_def
           split: sum.splits if_splits prod.splits option.splits)

text \<open>When a pending aggregate is adopted, the method assigns a new one-entry dict to
  \<^verbatim>\<open>rule['current_aggregate_id']\<close>: the entry of every other key is gone.\<close>

lemma add_aggregated_alert_adopts_drops_others:
  assumes "add_aggregated_alert u self es_index pending_res now st match rule = Inr (res, rule', st')"
    and "opens_new_group u now match rule (get_aggregation_key_value u rule match) = Inr True"
    and "pending_res = Inr ((pending_id, pending_time) # rest)"
    and "k \<noteq> get_aggregation_key_value u rule match"
  shows "current_aggregate_id rule' k = None"
  using assms
  by (auto simp: add_aggregated_alert_def find_pending_aggregate_alert_def Let_def
           split: sum.splits if_splits prod.splits option.splits)

text \<open>
  Claim C4 asks that adopting a pending aggregate for a key leave the entries of the
  other keys of \<^verbatim>\<open>current_aggregate_id\<close> as they were. The code does not: with an open
  group for \<^verbatim>\<open>bob\<close>, a match of \<^verbatim>\<open>alice\<close> whose pending aggregate \<^verbatim>\<open>id_alice\<close> is found in
  the writeback index leaves \<^verbatim>\<open>current_aggregate_id\<close> with the entry of \<^verbatim>\<open>alice\<close> alone,
  while \<^verbatim>\<open>aggregate_alert_time\<close>, updated by key, keeps the deadline of \<^verbatim>\<open>bob\<close>.
\<close>

theorem add_aggregated_alert_adoption_drops_other_key:
  "current_aggregate_id example_agg_rule (Some ''bob'') = Some ''id_bob'' \<and>
   (case add_aggregated_alert example_util example_conf (\<lambda>d. Some ''id_new'')
           (Inr [(''id_alice'', 400)]) 100 example_engine
           [(''user'', PStr ''alice''), (''@timestamp'', PTime 90)] example_agg_rule of
      Inl e \<Rightarrow> False
    | Inr (res, rule', st') \<Rightarrow>
        res = Some ''id_new'' \<and>
        current_aggregate_id rule' (Some ''alice'') = Some ''id_alice'' \<and>
        current_aggregate_id rule' (Some ''bob'') = None \<and>
        aggregate_alert_time rule' (Some ''bob'') = Some (Some 500))"
  by (simp add: add_aggregated_alert_def example_agg_rule_def example_rule_def
        example_util_def example_conf_def example_engine_def get_aggregation_key_value_def
        opens_new_group_def find_pending_aggregate_alert_def get_alert_body_def
        writeback_def Let_def)

subsection \<open>Hits without a timestamp\<close>

lemma process_hits_loop_append:
  "process_hits_loop u rule (pre @ post) acc =
     (case process_hits_loop u rule pre acc of
        Inl e \<Rightarrow> Inl e
      | Inr acc1 \<Rightarrow> process_hits_loop u rule post acc1)"
  by (induction pre arbitrary: acc) (auto split: sum.splits)

lemma process_hits_loop_all_ok:
  "\<forall>h\<in>set pre. \<exists>d. process_hit u rule h = Inr d \<Longrightarrow>
   \<exists>acc1. process_hits_loop u rule pre acc = Inr acc1"
proof (induction pre arbitrary: acc)
  case Nil
  then show ?case by simp
next
  case (Cons h pre)
  then obtain d where "process_hit u rule h = Inr d" by auto
  with Cons show ?case by simp
qed

lemma process_hit_no_timestamp:
  "\<not> truthy (hit_timestamp u rule h) \<Longrightarrow> source_enabled rule = Some False \<Longrightarrow>
   process_hit u rule h = Inl (EAException no_timestamp_message)"
  by (simp add: process_hit_def)

lemma process_hit_with_timestamp:
  assumes "truthy (hit_timestamp u rule h)"
    and "\<forall>v. ts_to_dt u v \<noteq> Inl (EAException no_timestamp_message)"
  shows "process_hit u rule h \<noteq> Inl (EAException no_timestamp_message)"
  using assms
  by (auto simp: process_hit_def compound_key_def Let_def split: sum.splits option.splits list.splits)

lemma process_hits_loop_error_from_hit:
  "process_hits_loop u rule hits acc = Inl e \<Longrightarrow> \<exists>h\<in>set hits. process_hit u rule h = Inl e"
  by (induction hits arbitrary: acc) (auto split: sum.splits)

text \<open>
  Claim C10. When a hit of the batch has no (or a falsy) value for the rule's timestamp
  field and the rule's \<^verbatim>\<open>_source_enabled\<close> is false, \<^verbatim>\<open>process_hits\<close> returns no list: it
  raises. The exception is the \<^verbatim>\<open>EAException\<close> "No timestamp was found for hit" when the
  hits before that one were processed without an exception. When every hit of the
  batch carries a truthy timestamp value, that \<^verbatim>\<open>EAException\<close> is not raised (the rule's
  own \<^verbatim>\<open>ts_to_dt\<close> being a function that does not raise it either).
\<close>

theorem process_hits_no_timestamp:
  "(hits = pre @ h # post \<and> (\<forall>h'\<in>set pre. \<exists>d. process_hit u rule h' = Inr d) \<and>
    \<not> truthy (hit_timestamp u rule h) \<and> source_enabled rule = Some False
      \<longrightarrow> process_hits u rule hits = Inl (EAException no_timestamp_message)) \<and>
   ((\<exists>h\<in>set hits. \<not> truthy (hit_timestamp u rule h)) \<and> source_enabled rule = Some False
      \<longrightarrow> (\<exists>e. process_hits u rule hits = Inl e)) \<and>
   ((\<forall>h\<in>set hits. truthy (hit_timestamp u rule h)) \<and>
    (\<forall>v. ts_to_dt u v \<noteq> Inl (EAException no_timestamp_message))
      \<longrightarrow> process_hits u rule hits \<noteq> Inl (EAException no_timestamp_message))"
proof (intro conjI impI)
  assume a: "hits = pre @ h # post \<and> (\<forall>h'\<in>set pre. \<exists>d. process_hit u rule h' = Inr d) \<and>
    \<not> truthy (hit_timestamp u rule h) \<and> source_enabled rule = Some False"
  then obtain acc1 where "process_hits_loop u rule pre [] = Inr acc1"
    using process_hits_loop_all_ok by blast
  with a show "process_hits u rule hits = Inl (EAException no_timestamp_message)"
    by (simp add: process_hits_def process_hits_loop_append process_hit_no_timestamp)
next
  assume a: "(\<exists>h\<in>set hits. \<not> truthy (hit_timestamp u rule h)) \<and> source_enabled rule = Some False"
  then obtain h where h: "h \<in> set hits" "\<not> truthy (hit_timestamp u rule h)" by blast
  then obtain pre post where sp: "hits = pre @ h # post" by (meson split_list)
  show "\<exists>e. process_hits u rule hits = Inl e"
  proof (cases "process_hits_loop u rule pre []")
    case (Inl e)
    then show ?thesis by (simp add: sp process_hits_def process_hits_loop_append)
  next
    case (Inr acc1)
    then show ?thesis using a h
      by (simp add: sp process_hits_def process_hits_loop_append process_hit_no_timestamp)
  qed
next
  assume a: "(\<forall>h\<in>set hits. truthy (hit_timestamp u rule h)) \<and>
    (\<forall>v. ts_to_dt u v \<noteq> Inl (EAException no_timestamp_message))"
  show "process_hits u rule hits \<noteq> Inl (EAException no_timestamp_message)"
  proof
    assume "process_hits u rule hits = Inl (EAException no_timestamp_message)"
    then obtain h where "h \<in> set hits" "process_hit u rule h = Inl (EAException no_timestamp_message)"
      using process_hits_loop_error_from_hit unfolding process_hits_def by blast
    with a process_hit_with_timestamp show False by blast
  qed
qed

text \<open>With stored fields only: a hit whose \<^verbatim>\<open>fields\<close> carry the timestamp followed by a
  hit without one aborts the batch; the first hit alone is processed.\<close>

theorem process_hits_no_timestamp_witness:
  "process_hits example_util (example_rule\<lparr>source_enabled := Some False\<rparr>)
     [\<lparr>hit_meta = [(''_id'', PStr ''H1'')], hit_source = None,
       hit_fields = Some [(''@timestamp'', PList [PInt 5])]\<rparr>,
      \<lparr>hit_meta = [(''_id'', PStr ''H2'')], hit_source = None, hit_fields = None\<rparr>]
   = Inl (EAException no_timestamp_message) \<and>
   process_hits example_util (example_rule\<lparr>source_enabled := Some False\<rparr>)
     [\<lparr>hit_meta = [(''_id'', PStr ''H1'')], hit_source = None,
       hit_fields = Some [(''@timestamp'', PList [PInt 5])]\<rparr>]
   = Inr [[(''@timestamp'', PTime 5), (''_id'', PStr ''H1'')]]"
proof -
  let ?h1 = "\<lparr>hit_meta = [(''_id'', PStr ''H1'')], hit_source = None,
       hit_fields = Some [(''@timestamp'', PList [PInt 5])]\<rparr>"
  let ?h2 = "\<lparr>hit_meta = [(''_id'', PStr ''H2'')], hit_source = None, hit_fields = None\<rparr>"
  let ?rule = "example_rule\<lparr>source_enabled := Some False\<rparr>"
  have p1: "process_hit example_util ?rule ?h1 = Inr [(''@timestamp'', PTime 5), (''_id'', PStr ''H1'')]"
    by (simp add: process_hit_def hit_timestamp_def merge_fields_def setdefault_def
          unwrap_single_def example_util_def example_rule_def compound_key_def)
  have t2: "\<not> truthy (hit_timestamp example_util ?rule ?h2)"
    by (simp add: hit_timestamp_def merge_fields_def example_util_def)
  have "process_hits example_util ?rule ([?h1] @ ?h2 # []) = Inl (EAException no_timestamp_message)"
    using process_hits_no_timestamp [of "[?h1] @ ?h2 # []" "[?h1]" ?h2 "[]" example_util ?rule] p1 t2
    by (simp add: example_rule_def)
  moreover have "process_hits example_util ?rule [?h1]
      = Inr [[(''@timestamp'', PTime 5), (''_id'', PStr ''H1'')]]"
    using p1 by (simp add: process_hits_def)
  ultimately show ?thesis by simp
qed

subsection \<open>A query that fails\<close>

lemma handle_error_stored:
  "\<not> debug self \<Longrightarrow> es_index (Error_doc m) \<noteq> None \<Longrightarrow>
   handle_error self es_index w m = w @ [Error_doc m]"
  by (auto simp: handle_error_def writeback_def)

lemma truncate_error_long:
  "length e > 1024 \<Longrightarrow>
   truncate_error e = take 1024 e @ ''... ('' @ str_nat (length e - 1024) @ '' characters removed)''"
  by (simp add: truncate_error_def)

lemma get_hits_error:
  assumes "request = (if scroll then Scroll_request sid else Search_request start endtime)"
    and "scroll \<longrightarrow> scroll_id rule = Some sid"
    and "es_search es (length (es_requests st)) request = Inl e \<or>
         (\<exists>res. es_search es (length (es_requests st)) request = Inr res \<and> res_failure res = Some e)"
  shows "\<exists>rule1 st1. get_hits u self es_index es st rule start endtime scroll = Inr (None, rule1, st1) \<and>
           docs_written st1 = handle_error self es_index (docs_written st)
                                (''Error running query: '' @ truncate_error e)"
  using assms by (cases scroll) (auto simp: get_hits_def Let_def split: option.splits)

text \<open>
  Claim C7, as amended. When the search (or scroll) request of \<^verbatim>\<open>get_hits\<close> fails with an
  exception text \<open>e\<close> of more than 1024 characters (raised by the client, or by
  \<^verbatim>\<open>get_hits\<close> itself for the shard failures of the response), \<^verbatim>\<open>get_hits\<close> returns \<^verbatim>\<open>None\<close>
  after handing to \<^verbatim>\<open>handle_error\<close> the message \<^verbatim>\<open>Error running query:\<close> followed by the
  first 1024 characters of \<open>e\<close> and the marker \<^verbatim>\<open>... (N characters removed)\<close>, \<open>N\<close> being
  the number of characters cut. \<^verbatim>\<open>handle_error\<close> stores that message as an
  \<^verbatim>\<open>elastalert_error\<close> document when the engine is not in debug mode and the writeback
  index accepts the document; in debug mode, or when the index raises (which \<^verbatim>\<open>writeback\<close>
  logs and swallows), nothing is stored. In search mode the enclosing \<^verbatim>\<open>run_query\<close>
  returns \<^verbatim>\<open>False\<close>.
\<close>

theorem get_hits_long_error:
  assumes "length e > 1024"
    and "request = (if scroll then Scroll_request sid else Search_request start endtime)"
    and "scroll \<longrightarrow> scroll_id rule = Some sid"
    and "es_search es (length (es_requests st)) request = Inl e \<or>
         (\<exists>res. es_search es (length (es_requests st)) request = Inr res \<and> res_failure res = Some e)"
    and "message = ''Error running query: '' @ take 1024 e @ ''... ('' @
                     str_nat (length e - 1024) @ '' characters removed)''"
  shows "(\<exists>rule1 st1.
            get_hits u self es_index es st rule start endtime scroll = Inr (None, rule1, st1) \<and>
            docs_written st1 = handle_error self es_index (docs_written st) message) \<and>
         (\<not> debug self \<and> es_index (Error_doc message) \<noteq> None \<longrightarrow>
            handle_error self es_index (docs_written st) message
              = docs_written st @ [Error_doc message]) \<and>
         (debug self \<or> es_index (Error_doc message) = None \<longrightarrow>
            handle_error self es_index (docs_written st) message = docs_written st) \<and>
         (\<not> use_count_query rule \<and> \<not> use_terms_query rule \<and> \<not> aggregation_query_element rule \<longrightarrow>
            (\<exists>rule2 st2.
               run_query (Suc depth) u self es_index es st rule start endtime scroll
                 = Inr (False, rule2, st2) \<and>
               docs_written st2 = handle_error self es_index (docs_written st) message))"
proof (intro conjI impI)
  have m: "''Error running query: '' @ truncate_error e = message"
    using assms(1,5) by (simp add: truncate_error_long)
  from get_hits_error[OF assms(2,3,4), of u self es_index]
  show "\<exists>rule1 st1.
            get_hits u self es_index es st rule start endtime scroll = Inr (None, rule1, st1) \<and>
            docs_written st1 = handle_error self es_index (docs_written st) message"
    unfolding m .
  show "handle_error self es_index (docs_written st) message = docs_written st @ [Error_doc message]"
    if "\<not> debug self \<and> es_index (Error_doc message) \<noteq> None"
    using that by (simp add: handle_error_stored)
  show "handle_error self es_index (docs_written st) message = docs_written st"
    if "debug self \<or> es_index (Error_doc message) = None"
    using that by (auto simp add: handle_error_def writeback_def)
  show "\<exists>rule2 st2.
               run_query (Suc depth) u self es_index es st rule start endtime scroll
                 = Inr (False, rule2, st2) \<and>
               docs_written st2 = handle_error self es_index (docs_written st) message"
    if mode: "\<not> use_count_query rule \<and> \<not> use_terms_query rule \<and> \<not> aggregation_query_element rule"
  proof -
    let ?rule = "rule\<lparr>scrolling_cycle :=
                     Some ((case scrolling_cycle rule of None \<Rightarrow> 0 | Some c \<Rightarrow> c) + 1)\<rparr>"
    have "scroll \<longrightarrow> scroll_id ?rule = Some sid" using assms(3) by simp
    from get_hits_error[OF assms(2) this assms(4), of u self es_index]
    have "\<exists>rule1 st1.
            get_hits u self es_index es st ?rule start endtime scroll = Inr (None, rule1, st1) \<and>
            docs_written st1 = handle_error self es_index (docs_written st) message"
      unfolding m .
    then obtain rule1 st1 where
      g: "get_hits u self es_index es st ?rule start endtime scroll = Inr (None, rule1, st1)"
      and d: "docs_written st1 = handle_error self es_index (docs_written st) message"
      by blast
    have "fetch_data u self es_index es st ?rule start endtime scroll = Inr (Query_failed, rule1, st1)"
      using mode g by (simp add: fetch_data_def)
    then have "run_query (Suc depth) u self es_index es st rule start endtime scroll
                 = Inr (False, rule1, st1)"
      by simp
    with d show ?thesis by blast
  qed
qed

lemma str_nat_1: "str_nat (Suc 0) = ''1''"
  by (simp add: str_nat.simps)

text \<open>A search that fails with 1025 characters: the stored message keeps 1024 of them
  and counts one removed; \<^verbatim>\<open>run_query\<close> reports failure.\<close>

theorem get_hits_long_error_witness:
  "get_hits example_util example_conf (\<lambda>d. Some ''id'') failing_cluster example_engine
     example_rule 0 60 False
   = Inr (None, example_rule,
          example_engine\<lparr>docs_written :=
              [Error_doc (''Error running query: '' @ replicate 1024 (CHR ''x'') @
                          ''... (1 characters removed)'')],
            es_requests := [Search_request 0 60]\<rparr>) \<and>
   run_query 1 example_util example_conf (\<lambda>d. Some ''id'') failing_cluster example_engine
     example_rule 0 60 False
   = Inr (False, example_rule\<lparr>scrolling_cycle := Some 1\<rparr>,
          example_engine\<lparr>docs_written :=
              [Error_doc (''Error running query: '' @ replicate 1024 (CHR ''x'') @
                          ''... (1 characters removed)'')],
            es_requests := [Search_request 0 60]\<rparr>)"
  using get_hits_long_error
    [where e = "replicate 1025 (CHR ''x'')" and scroll = False and start = 0 and endtime = 60
       and request = "Search_request 0 60" and es = failing_cluster and st = example_engine
       and rule = example_rule and self = example_conf and es_index = "\<lambda>d. Some ''id''"
       and u = example_util and depth = 0
       and message = "''Error running query: '' @ replicate 1024 (CHR ''x'') @
                          ''... (1 characters removed)''"]
  by (simp add: get_hits_def fetch_data_def failing_cluster_def example_engine_def
        example_rule_def example_conf_def handle_error_def writeback_def truncate_error_def
        str_nat_1 Let_def)

text \<open>The text kept of the error is not its first 1024 characters alone: with the
  marker it has 1050 characters.\<close>

theorem get_hits_marker_counterexample:
  "length (replicate 1025 (CHR ''x'')) > 1024 \<and>
   get_hits example_util example_conf (\<lambda>d. Some ''id'') failing_cluster example_engine
     example_rule 0 60 False
   = Inr (None, example_rule,
          example_engine\<lparr>docs_written :=
              [Error_doc (''Error running query: '' @ replicate 1024 (CHR ''x'') @
                          ''... (1 characters removed)'')],
            es_requests := [Search_request 0 60]\<rparr>) \<and>
   length (replicate 1024 (CHR ''x'') @ ''... (1 characters removed)'') = 1050 \<and>
   replicate 1024 (CHR ''x'') @ ''... (1 characters removed)''
     \<noteq> take 1024 (replicate 1025 (CHR ''x''))"
  by (simp add: get_hits_def failing_cluster_def example_engine_def
        example_rule_def example_conf_def handle_error_def writeback_def truncate_error_def
        str_nat_1 Let_def)

subsection \<open>Duplicate events\<close>

subsubsection \<open>The loop of \<^verbatim>\<open>remove_duplicate_events\<close>\<close>




subsubsection \<open>An invariant of \<^verbatim>\<open>run_query\<close> in search mode\<close>



















subsubsection \<open>Where the events of a search run come from\<close>
















subsubsection \<open>The timestamp of a processed hit\<close>



lemma timestamp_kept_example: "timestamp_kept example_util example_rule"
  by (simp add: timestamp_kept_def example_util_def example_rule_def update_conv')




subsection \<open>The guard of \<^verbatim>\<open>run_rule\<close>\<close>

























end
